theory Spec2Isabelle
  imports Complex_Main "HOL-Library.Monad_Syntax"
begin

section \<open>The animated background of src/App.tsx\<close>

text \<open>
  The component \<open>ShaderPlane\<close> of \<open>src/App.tsx\<close> draws one plane with a GLSL
  fragment program. The program is embedded here as HOL functions. GLSL \<open>float\<close> is read
  as \<open>real\<close>: rounding and overflow of the 32-bit format are not part of the model. The two
  operations of the program whose result GLSL leaves undefined for some arguments, division
  (by zero) and \<open>sqrt\<close> (of a negative number), return \<open>None\<close> there, and so does
  \<open>smoothstep\<close> for \<open>edge0 \<ge> edge1\<close>, so that an undefined value anywhere in an evaluation
  is the value \<open>None\<close> of the whole evaluation.
\<close>

subsection \<open>Vectors\<close>

datatype vec2 = Vec2 (vx: real) (vy: real)

datatype vec3 = Vec3 (vr: real) (vg: real) (vb: real)

datatype vec4 = Vec4 (rgb: vec3) (alpha: real)

datatype mat2 = Mat2 (col0: vec2) (col1: vec2)

text \<open>Component-wise operators of GLSL, one definition for each shape the program uses.\<close>

definition sub2s :: "vec2 \<Rightarrow> real \<Rightarrow> vec2" where
  "sub2s p s = Vec2 (vx p - s) (vy p - s)"

definition mul2s :: "vec2 \<Rightarrow> real \<Rightarrow> vec2" where
  "mul2s p s = Vec2 (vx p * s) (vy p * s)"

definition add3 :: "vec3 \<Rightarrow> vec3 \<Rightarrow> vec3" where
  "add3 a c = Vec3 (vr a + vr c) (vg a + vg c) (vb a + vb c)"

definition add3s :: "vec3 \<Rightarrow> real \<Rightarrow> vec3" where
  "add3s a s = Vec3 (vr a + s) (vg a + s) (vb a + s)"

definition mul3s :: "vec3 \<Rightarrow> real \<Rightarrow> vec3" where
  "mul3s a s = Vec3 (vr a * s) (vg a * s) (vb a * s)"

definition dot2 :: "vec2 \<Rightarrow> vec2 \<Rightarrow> real" where
  "dot2 p q = vx p * vx q + vy p * vy q"

text \<open>\<open>v * m\<close> with a vector on the left: component \<open>k\<close> is the dot product of \<open>v\<close> with
  column \<open>k\<close> of \<open>m\<close>.\<close>

definition mul_vec_mat :: "vec2 \<Rightarrow> mat2 \<Rightarrow> vec2" where
  "mul_vec_mat v m = Vec2 (dot2 v (col0 m)) (dot2 v (col1 m))"

subsection \<open>Built-in functions\<close>

definition fdiv :: "real \<Rightarrow> real \<Rightarrow> real option" where
  "fdiv a d = (if d = 0 then None else Some (a / d))"

definition fsqrt :: "real \<Rightarrow> real option" where
  "fsqrt a = (if a < 0 then None else Some (sqrt a))"

definition length2 :: "vec2 \<Rightarrow> real option" where
  "length2 p = fsqrt (vx p * vx p + vy p * vy p)"

definition fract :: "real \<Rightarrow> real" where
  "fract a = a - of_int \<lfloor>a\<rfloor>"

definition fract2 :: "vec2 \<Rightarrow> vec2" where
  "fract2 p = Vec2 (fract (vx p)) (fract (vy p))"

definition clamp :: "real \<Rightarrow> real \<Rightarrow> real \<Rightarrow> real" where
  "clamp a lo hi = min (max a lo) hi"

definition smoothstep :: "real \<Rightarrow> real \<Rightarrow> real \<Rightarrow> real option" where
  "smoothstep edge0 edge1 a =
     (if edge0 \<ge> edge1 then None
      else do {
        q \<leftarrow> fdiv (a - edge0) (edge1 - edge0);
        let t = clamp q 0 1;
        Some (t * t * (3 - 2 * t))
      })"

definition mix :: "real \<Rightarrow> real \<Rightarrow> real \<Rightarrow> real" where
  "mix a c t = a * (1 - t) + c * t"

definition mix3 :: "vec3 \<Rightarrow> vec3 \<Rightarrow> real \<Rightarrow> vec3" where
  "mix3 a c t = Vec3 (mix (vr a) (vr c) t) (mix (vg a) (vg c) t) (mix (vb a) (vb c) t)"

subsection \<open>The fragment program\<close>

record uniforms =
  uTime :: real
  uResolution :: vec2

definition sdCircle :: "vec2 \<Rightarrow> real \<Rightarrow> real option" where
  "sdCircle p r = do { l \<leftarrow> length2 p; Some (l - r) }"

definition rot :: "real \<Rightarrow> mat2" where
  "rot a = (let c = cos a; s = sin a in Mat2 (Vec2 c (- s)) (Vec2 s c))"

text \<open>The body of the loop of \<open>main\<close>, statement by statement. \<open>layer_point\<close> is the point
  after "Rotate and scale each layer differently", \<open>wave\<close> the two assignments of "Create wave
  distortion", \<open>repeat_space\<close> the assignment of "Repeat the space", \<open>ring\<close> the four
  assignments of "Create distance field", \<open>layerColor\<close> the three conditionals of "Color based
  on layer", \<open>tiled_layer\<close> the body from "Repeat the space" on, as a function of the point
  \<open>p\<close> before it, and \<open>layer\<close> the value that the last statement adds to \<open>col\<close>.\<close>

definition layer_point :: "real \<Rightarrow> vec2 \<Rightarrow> real \<Rightarrow> vec2" where
  "layer_point time uv i =
     (let p = mul_vec_mat uv (rot (time * 0.1 * (i + 1)));
          p = mul2s p (1 + i * 0.3)
      in p)"

definition wave :: "real \<Rightarrow> real \<Rightarrow> vec2 \<Rightarrow> vec2" where
  "wave time i p =
     (let p = Vec2 (vx p + sin (vy p * 3 + time * (1 + i * 0.5)) * 0.3) (vy p);
          p = Vec2 (vx p) (vy p + cos (vx p * 2 + time * (1.2 + i * 0.3)) * 0.2)
      in p)"

definition repeat_space :: "vec2 \<Rightarrow> vec2" where
  "repeat_space p = sub2s (fract2 (mul2s p 1.5)) 0.5"

definition ring :: "real \<Rightarrow> real \<Rightarrow> vec2 \<Rightarrow> real option" where
  "ring time i p = do {
     d \<leftarrow> sdCircle p (0.2 - i * 0.05);
     d \<leftarrow> fdiv \<bar>sin (d * 8 + time * 2)\<bar> 8;
     d \<leftarrow> smoothstep 0 0.1 d;
     Some (1 - d)
   }"

definition layerColor :: "real \<Rightarrow> vec3" where
  "layerColor i =
     (let c = Vec3 0 0 0;
          c = (if i = 0 then Vec3 0.15 0.25 0.4 else c);
          c = (if i = 1 then Vec3 0.25 0.15 0.35 else c);
          c = (if i = 2 then Vec3 0.2 0.3 0.25 else c)
      in c)"

definition tiled_layer :: "real \<Rightarrow> real \<Rightarrow> vec2 \<Rightarrow> vec3 option" where
  "tiled_layer time i p = do {
     let p = repeat_space p;
     d \<leftarrow> ring time i p;
     Some (mul3s (mul3s (layerColor i) d) (0.6 - i * 0.1))
   }"

definition layer :: "real \<Rightarrow> vec2 \<Rightarrow> real \<Rightarrow> vec3 option" where
  "layer time uv i = do {
     let p = layer_point time uv i;
     let p = wave time i p;
     tiled_layer time i p
   }"

text \<open>The loop \<open>for(float i = 0.0; i < 3.0; i++)\<close>, from any value of the counter.\<close>

function layers :: "real \<Rightarrow> vec2 \<Rightarrow> real \<Rightarrow> vec3 \<Rightarrow> vec3 option" where
  "layers time uv i col =
     (if i < 3
      then (case layer time uv i of
              None \<Rightarrow> None
            | Some c \<Rightarrow> layers time uv (i + 1) (add3 col c))
      else Some col)"
  by pat_completeness auto
termination
proof (relation "measure (\<lambda>(time, uv, i, col). nat \<lceil>3 - i\<rceil>)")
  show "wf (measure (\<lambda>(time, uv, i, col). nat \<lceil>3 - i\<rceil>))"
    by simp
next
  fix time :: real and uv :: vec2 and i :: real and col c :: vec3
  assume "i < 3"
  then have "0 < \<lceil>3 - i\<rceil>"
    by simp
  moreover have "\<lceil>3 - (i + 1)\<rceil> = \<lceil>(3 - i) - 1\<rceil>"
    by (rule arg_cong [where f = ceiling]) simp
  then have "\<lceil>3 - (i + 1)\<rceil> = \<lceil>3 - i\<rceil> - 1"
    by (simp only: ceiling_diff_one)
  ultimately show "((time, uv, i + 1, add3 col c), (time, uv, i, col))
      \<in> measure (\<lambda>(time, uv, i, col). nat \<lceil>3 - i\<rceil>)"
    by simp
qed

declare layers.simps [simp del]

text \<open>\<open>shade\<close> is \<open>main\<close> from its second statement on, as a function of the value of
  \<open>uTime\<close> and of the normalized coordinate \<open>uv\<close>; \<open>main\<close> computes \<open>uv\<close> from the varying
  \<open>vUv\<close> and reads \<open>uTime\<close> from the uniforms.\<close>

definition noise_of :: "vec2 \<Rightarrow> real" where
  "noise_of uv = fract (sin (dot2 uv (Vec2 12.9898 78.233)) * 43758.5453)"

definition shade :: "real \<Rightarrow> vec2 \<Rightarrow> vec4 option" where
  "shade t uv = do {
     let time = t * 0.3;
     let col = Vec3 0 0 0;
     let background = Vec3 0.08 0.12 0.18;
     col \<leftarrow> layers time uv 0 col;
     let noise = noise_of uv;
     let background = add3s background (noise * 0.02);
     let col = mix3 background (add3 background col) 0.8;
     l \<leftarrow> length2 (mul2s uv 0.5);
     let vignette = 1 - l;
     let col = mul3s col (0.7 + 0.3 * vignette);
     Some (Vec4 col 1)
   }"

definition main :: "uniforms \<Rightarrow> vec2 \<Rightarrow> vec4 option" where
  "main u vUv = (let uv = mul2s (sub2s vUv 0.5) 2 in shade (uTime u) uv)"

subsection \<open>The host component\<close>

text \<open>
  \<open>ShaderPlane\<close> keeps the uniforms in an object that \<open>useMemo\<close> computes with an empty
  dependency list, and registers one \<open>useFrame\<close> callback. Its state is the memoised uniforms,
  whether \<open>meshRef.current\<close> is set, the arguments of \<open>planeGeometry\<close> and the \<open>scale\<close> of
  the mesh; \<open>window_size\<close> is \<open>(window.innerWidth, window.innerHeight)\<close> of the browser.
\<close>

record host =
  host_uniforms :: uniforms
  meshRef_current :: bool
  plane_args :: "real \<times> real"
  mesh_scale :: "real \<times> real \<times> real"
  window_size :: vec2

datatype event =
    Attach
  | Rerender
  | Frame real
  | Resize vec2

text \<open>The first render, in a window of size \<open>w\<close>.\<close>

definition initialize :: "vec2 \<Rightarrow> host" where
  "initialize w =
     \<lparr> host_uniforms = \<lparr> uTime = 0, uResolution = w \<rparr>,
       meshRef_current = False,
       plane_args = (2, 2),
       mesh_scale = (2, 2, 1),
       window_size = w \<rparr>"

text \<open>
  \<open>Attach\<close>: React sets \<open>meshRef.current\<close> when it commits the mesh.
  \<open>Rerender\<close>: the component function runs again; \<open>useMemo\<close> with the dependency list
  \<open>[]\<close> returns the object of the first render and the JSX has the same constants.
  \<open>Frame e\<close>: the \<open>useFrame\<close> callback with \<open>state.clock.elapsedTime = e\<close>.
  \<open>Resize w\<close>: the browser window takes the size \<open>w\<close>; the component registers no listener
  for it.
\<close>

fun step :: "host \<Rightarrow> event \<Rightarrow> host" where
  "step s Attach = s\<lparr> meshRef_current := True \<rparr>"
| "step s Rerender = s"
| "step s (Frame e) =
     (if meshRef_current s
      then s\<lparr> host_uniforms := (host_uniforms s)\<lparr> uTime := e \<rparr> \<rparr>
      else s)"
| "step s (Resize w) = s\<lparr> window_size := w \<rparr>"

definition run :: "host \<Rightarrow> event list \<Rightarrow> host" where
  "run s evs = foldl step s evs"

section \<open>Closed forms\<close>

text \<open>No operation of the program is applied outside its domain, so each function that can
  return \<open>None\<close> has a closed form that it always returns. The definitions of this section
  are not functions of the source: \<open>hermite\<close> is the polynomial of \<open>smoothstep\<close> for the edges
  \<open>0\<close> and \<open>1\<close>, \<open>norm2\<close> the Euclidean length, and each \<open>_val\<close> is the value that the
  function of the same name returns, as the lemmas \<open>_Some\<close> below show.\<close>

definition hermite :: "real \<Rightarrow> real" where
  "hermite q = (let t = clamp q 0 1 in t * t * (3 - 2 * t))"

definition norm2 :: "vec2 \<Rightarrow> real" where
  "norm2 p = sqrt (vx p * vx p + vy p * vy p)"

definition ring_val :: "real \<Rightarrow> real \<Rightarrow> vec2 \<Rightarrow> real" where
  "ring_val time i p =
     1 - hermite (\<bar>sin ((norm2 p - (0.2 - i * 0.05)) * 8 + time * 2)\<bar> / 8 / 0.1)"

definition layer_val :: "real \<Rightarrow> vec2 \<Rightarrow> real \<Rightarrow> vec3" where
  "layer_val time uv i =
     mul3s (mul3s (layerColor i)
                  (ring_val time i (repeat_space (wave time i (layer_point time uv i)))))
           (0.6 - i * 0.1)"

definition layers_val :: "real \<Rightarrow> vec2 \<Rightarrow> vec3" where
  "layers_val time uv =
     add3 (add3 (add3 (Vec3 0 0 0) (layer_val time uv 0)) (layer_val time uv 1))
          (layer_val time uv 2)"

definition background_of :: "vec2 \<Rightarrow> vec3" where
  "background_of uv = add3s (Vec3 0.08 0.12 0.18) (noise_of uv * 0.02)"

definition vignette_factor :: "vec2 \<Rightarrow> real" where
  "vignette_factor uv = 0.7 + 0.3 * (1 - norm2 (mul2s uv 0.5))"

definition shade_val :: "real \<Rightarrow> vec2 \<Rightarrow> vec3" where
  "shade_val t uv =
     mul3s (mix3 (background_of uv)
                 (add3 (background_of uv) (layers_val (t * 0.3) uv)) 0.8)
           (vignette_factor uv)"

text \<open>The Taylor polynomials of sine, of degree 17, and of cosine, of degree 18, at 0; they
  serve to enclose the values of the program at given points between rational numbers.\<close>

definition sin_taylor :: "real \<Rightarrow> real" where
  "sin_taylor q = (\<Sum>m<19. sin_coeff m * q ^ m)"

definition cos_taylor :: "real \<Rightarrow> real" where
  "cos_taylor q = (\<Sum>m<20. cos_coeff m * q ^ m)"

lemma length2_Some: "length2 p = Some (norm2 p)"
  by (simp add: length2_def fsqrt_def norm2_def not_less)

lemma smoothstep_Some: "smoothstep 0 0.1 a = Some (hermite (a / 0.1))"
  by (simp add: smoothstep_def fdiv_def hermite_def Let_def)

lemma ring_Some: "ring time i p = Some (ring_val time i p)"
  by (simp add: ring_def sdCircle_def length2_Some fdiv_def smoothstep_Some ring_val_def)

lemma layer_Some: "layer time uv i = Some (layer_val time uv i)"
  by (simp add: layer_def tiled_layer_def ring_Some layer_val_def)

lemma layers_Some: "layers time uv 0 (Vec3 0 0 0) = Some (layers_val time uv)"
proof -
  have "layers time uv 3 c = Some c" for c
    by (subst layers.simps) simp
  moreover have "layers time uv 2 c = layers time uv 3 (add3 c (layer_val time uv 2))" for c
    by (subst layers.simps) (simp add: layer_Some)
  moreover have "layers time uv 1 c = layers time uv 2 (add3 c (layer_val time uv 1))" for c
    by (subst layers.simps) (simp add: layer_Some)
  moreover have "layers time uv 0 c = layers time uv 1 (add3 c (layer_val time uv 0))" for c
    by (subst layers.simps) (simp add: layer_Some)
  ultimately show ?thesis
    by (simp add: layers_val_def)
qed

lemma shade_Some: "shade t uv = Some (Vec4 (shade_val t uv) 1)"
  by (simp add: shade_def Let_def layers_Some length2_Some shade_val_def background_of_def
      vignette_factor_def)

subsection \<open>Ranges\<close>

lemma hermite_bounds: "0 \<le> hermite q \<and> hermite q \<le> 1"
proof -
  define t where "t = clamp q 0 1"
  have t: "0 \<le> t" "t \<le> 1"
    by (simp_all add: t_def clamp_def)
  have h: "hermite q = t * t * (3 - 2 * t)"
    by (simp add: hermite_def t_def Let_def)
  have "0 \<le> t * t * (3 - 2 * t)"
    using t by simp
  moreover have "1 - t * t * (3 - 2 * t) = (1 - t) * (1 - t) * (1 + 2 * t)"
    by (simp add: algebra_simps)
  moreover have "0 \<le> (1 - t) * (1 - t) * (1 + 2 * t)"
    using t by simp
  ultimately show ?thesis
    using h by linarith
qed

lemma ring_val_bounds: "0 \<le> ring_val time i p \<and> ring_val time i p \<le> 1"
  using hermite_bounds [of "\<bar>sin ((norm2 p - (0.2 - i * 0.05)) * 8 + time * 2)\<bar> / 8 / 0.1"]
  by (simp add: ring_val_def)

lemma fract_bounds: "0 \<le> fract a \<and> fract a < 1"
  unfolding fract_def by linarith

lemma noise_of_bounds: "0 \<le> noise_of uv \<and> noise_of uv < 1"
  by (simp add: noise_of_def fract_bounds)

lemma layers_val_channels:
  "vr (layers_val time uv) =
     0.09 * ring_val time 0 (repeat_space (wave time 0 (layer_point time uv 0)))
     + 0.125 * ring_val time 1 (repeat_space (wave time 1 (layer_point time uv 1)))
     + 0.08 * ring_val time 2 (repeat_space (wave time 2 (layer_point time uv 2)))"
  "vg (layers_val time uv) =
     0.15 * ring_val time 0 (repeat_space (wave time 0 (layer_point time uv 0)))
     + 0.075 * ring_val time 1 (repeat_space (wave time 1 (layer_point time uv 1)))
     + 0.12 * ring_val time 2 (repeat_space (wave time 2 (layer_point time uv 2)))"
  "vb (layers_val time uv) =
     0.24 * ring_val time 0 (repeat_space (wave time 0 (layer_point time uv 0)))
     + 0.175 * ring_val time 1 (repeat_space (wave time 1 (layer_point time uv 1)))
     + 0.1 * ring_val time 2 (repeat_space (wave time 2 (layer_point time uv 2)))"
  by (simp_all add: layers_val_def layer_val_def layerColor_def add3_def mul3s_def)

lemma shade_val_channels:
  "vr (shade_val t uv) = (0.08 + noise_of uv * 0.02 + 0.8 * vr (layers_val (t * 0.3) uv)) * vignette_factor uv"
  "vg (shade_val t uv) = (0.12 + noise_of uv * 0.02 + 0.8 * vg (layers_val (t * 0.3) uv)) * vignette_factor uv"
  "vb (shade_val t uv) = (0.18 + noise_of uv * 0.02 + 0.8 * vb (layers_val (t * 0.3) uv)) * vignette_factor uv"
  by (simp_all add: shade_val_def background_of_def mix3_def mix_def add3_def add3s_def mul3s_def algebra_simps)

lemma vignette_factor_eq: "vignette_factor uv = 1 - 0.15 * norm2 uv"
proof -
  have "vx uv * vx uv / 4 + vy uv * vy uv / 4 = (vx uv * vx uv + vy uv * vy uv) * (1/2)\<^sup>2"
    by (simp add: power2_eq_square algebra_simps)
  then have e: "norm2 (mul2s uv 0.5) = norm2 uv * 0.5"
    by (simp add: norm2_def mul2s_def real_sqrt_mult)
  show ?thesis
    unfolding vignette_factor_def e by (simp add: field_simps)
qed

lemma norm2_square: "\<bar>vx uv\<bar> \<le> 1 \<Longrightarrow> \<bar>vy uv\<bar> \<le> 1 \<Longrightarrow> 0 \<le> norm2 uv \<and> norm2 uv \<le> 3/2"
proof -
  assume a: "\<bar>vx uv\<bar> \<le> 1" "\<bar>vy uv\<bar> \<le> 1"
  have "vx uv * vx uv \<le> 1" "vy uv * vy uv \<le> 1"
    using a by (simp_all add: abs_le_square_iff [of _ 1, simplified] power2_eq_square)
  then have "vx uv * vx uv + vy uv * vy uv \<le> (3/2)\<^sup>2"
    by (simp add: power2_eq_square)
  then have "norm2 uv \<le> 3/2"
    unfolding norm2_def by (rule real_le_lsqrt[rotated 1]) simp
  then show ?thesis by (simp add: norm2_def)
qed

lemma vignette_factor_bounds:
  assumes "\<bar>vx uv\<bar> \<le> 1" "\<bar>vy uv\<bar> \<le> 1"
  shows "0.7 < vignette_factor uv \<and> vignette_factor uv \<le> 1"
  using norm2_square [OF assms] by (simp add: vignette_factor_eq)

lemma layers_val_bounds:
  "0 \<le> vr (layers_val time uv) \<and> vr (layers_val time uv) \<le> 0.295
   \<and> 0 \<le> vg (layers_val time uv) \<and> vg (layers_val time uv) \<le> 0.345
   \<and> 0 \<le> vb (layers_val time uv) \<and> vb (layers_val time uv) \<le> 0.515"
  using ring_val_bounds [of time 0 "repeat_space (wave time 0 (layer_point time uv 0))"]
    ring_val_bounds [of time 1 "repeat_space (wave time 1 (layer_point time uv 1))"]
    ring_val_bounds [of time 2 "repeat_space (wave time 2 (layer_point time uv 2))"]
  by (simp add: layers_val_channels)

lemma channel_bounds:
  fixes k n c f :: real
  assumes "0 < k" "0 \<le> n" "n < 1" "0 \<le> c" "k + 0.02 + 0.8 * c < 1" "0.7 < f" "f \<le> 1"
  shows "0 < (k + n * 0.02 + 0.8 * c) * f \<and> (k + n * 0.02 + 0.8 * c) * f < 1"
proof -
  have pos: "0 < k + n * 0.02 + 0.8 * c"
    using assms by simp
  have lt: "k + n * 0.02 + 0.8 * c < 1"
    using assms by simp
  have "(k + n * 0.02 + 0.8 * c) * f \<le> (k + n * 0.02 + 0.8 * c) * 1"
    using pos assms by (intro mult_left_mono) simp_all
  moreover have "0 < (k + n * 0.02 + 0.8 * c) * f"
    using pos assms by simp
  ultimately show ?thesis
    using lt by simp
qed

lemma noise_of_origin: "noise_of (Vec2 0 0) = 0"
  by (simp add: noise_of_def dot2_def fract_def)

lemma norm2_origin: "norm2 (mul2s (Vec2 0 0) s) = 0"
  by (simp add: norm2_def mul2s_def)

subsection \<open>Enclosures of sine, cosine and square root\<close>

text \<open>A real number \<open>a\<close> is enclosed by a centre \<open>c\<close> and a radius \<open>e\<close> when
  \<open>\<bar>a - c\<bar> \<le> e\<close>. Sine and cosine are 1-Lipschitz and differ from their Taylor polynomials
  by at most the next term, so an enclosure of the argument gives one of the value.\<close>

lemma lessThan_19: "{..<19::nat} = {0,1,2,3,4,5,6,7,8,9,10,11,12,13,14,15,16,17,18}"
  by auto arith

lemma sin_taylor_poly:
  "sin_taylor q = q - q^3 / 6 + q^5 / 120 - q^7 / 5040 + q^9 / 362880 - q^11 / 39916800
     + q^13 / 6227020800 - q^15 / 1307674368000 + q^17 / 355687428096000"
  unfolding sin_taylor_def lessThan_19
  by (simp add: sin_coeff_def fact_numeral)

lemma lessThan_20: "{..<20::nat} = {0,1,2,3,4,5,6,7,8,9,10,11,12,13,14,15,16,17,18,19}"
  by auto arith

lemma cos_taylor_poly:
  "cos_taylor q = 1 - q^2 / 2 + q^4 / 24 - q^6 / 720 + q^8 / 40320 - q^10 / 3628800
     + q^12 / 479001600 - q^14 / 87178291200 + q^16 / 20922789888000 - q^18 / 6402373705728000"
  unfolding cos_taylor_def lessThan_20
  by (simp add: cos_coeff_def fact_numeral)

lemma fact_19: "fact 19 = (121645100408832000 :: real)"
  by (simp add: fact_numeral)

lemma fact_20: "fact 20 = (2432902008176640000 :: real)"
  by (simp add: fact_numeral)

lemma sin_taylor_error: "\<bar>sin q - sin_taylor q\<bar> \<le> \<bar>q\<bar> ^ 19 / 121645100408832000"
proof -
  have "\<bar>sin q - sin_taylor q\<bar> \<le> inverse (fact 19) * \<bar>q\<bar> ^ 19"
    unfolding sin_taylor_def by (rule Maclaurin_sin_bound)
  also have "\<dots> = \<bar>q\<bar> ^ 19 / fact 19"
    by (simp only: divide_inverse mult.commute)
  finally show ?thesis
    by (simp only: fact_19)
qed

lemma cos_taylor_error: "\<bar>cos q - cos_taylor q\<bar> \<le> \<bar>q\<bar> ^ 20 / 2432902008176640000"
proof -
  obtain t where t: "cos q = cos_taylor q + (cos (t + 1 / 2 * real (20::nat) * pi) / fact 20) * q ^ 20"
    using Maclaurin_cos_expansion [of q 20] unfolding cos_taylor_def by blast
  have "cos q - cos_taylor q = (cos (t + 1 / 2 * real (20::nat) * pi) / fact 20) * q ^ 20"
    using t by linarith
  then have "\<bar>cos q - cos_taylor q\<bar> = \<bar>cos (t + 1 / 2 * real (20::nat) * pi)\<bar> * (\<bar>q\<bar> ^ 20 / fact 20)"
    by (simp add: abs_mult power_abs)
  also have "\<dots> \<le> 1 * (\<bar>q\<bar> ^ 20 / fact 20)"
    by (intro mult_right_mono abs_cos_le_one divide_nonneg_nonneg zero_le_power abs_ge_zero fact_ge_zero)
  finally show ?thesis
    by (simp only: fact_20 mult_1)
qed

lemma sin_lipschitz: "\<bar>sin a - sin c\<bar> \<le> \<bar>a - c :: real\<bar>"
proof -
  have "\<bar>sin a - sin c\<bar> = 2 * \<bar>sin ((a - c) / 2)\<bar> * \<bar>cos ((a + c) / 2)\<bar>"
    by (simp add: sin_diff_sin abs_mult)
  also have "\<dots> \<le> 2 * \<bar>(a - c) / 2\<bar> * 1"
    by (intro mult_mono mult_left_mono abs_sin_x_le_abs_x abs_cos_le_one) simp_all
  finally show ?thesis
    by simp
qed

lemma cos_lipschitz: "\<bar>cos a - cos c\<bar> \<le> \<bar>a - c :: real\<bar>"
proof -
  have "\<bar>cos a - cos c\<bar> = 2 * \<bar>sin ((a + c) / 2)\<bar> * \<bar>sin ((c - a) / 2)\<bar>"
    by (simp add: cos_diff_cos abs_mult)
  also have "\<dots> \<le> 2 * 1 * \<bar>(c - a) / 2\<bar>"
    by (intro mult_mono mult_left_mono abs_sin_x_le_abs_x abs_sin_le_one) simp_all
  finally show ?thesis
    by simp
qed

lemma sin_enclosure:
  assumes "\<bar>a - q\<bar> \<le> r"
    and "\<bar>sin_taylor q - c\<bar> + r + \<bar>q\<bar> ^ 19 / 121645100408832000 \<le> e"
  shows "\<bar>sin a - c\<bar> \<le> e"
  using sin_lipschitz [of a q] sin_taylor_error [of q] assms by linarith

lemma cos_enclosure:
  assumes "\<bar>a - q\<bar> \<le> r"
    and "\<bar>cos_taylor q - c\<bar> + r + \<bar>q\<bar> ^ 20 / 2432902008176640000 \<le> e"
  shows "\<bar>cos a - c\<bar> \<le> e"
  using cos_lipschitz [of a q] cos_taylor_error [of q] assms by linarith

lemma fract_eq:
  assumes "of_int n \<le> a" and "a < of_int n + 1"
  shows "fract a = a - of_int n"
proof -
  have "\<lfloor>a\<rfloor> = n"
    using assms by (intro floor_unique) simp_all
  then show ?thesis
    by (simp add: fract_def)
qed

lemma square_enclosure:
  fixes x c r :: real
  assumes "\<bar>x - c\<bar> \<le> r" and "r \<le> \<bar>c\<bar>"
  shows "(\<bar>c\<bar> - r) * (\<bar>c\<bar> - r) \<le> x * x \<and> x * x \<le> (\<bar>c\<bar> + r) * (\<bar>c\<bar> + r)"
proof -
  have lo: "\<bar>c\<bar> - r \<le> \<bar>x\<bar>" and hi: "\<bar>x\<bar> \<le> \<bar>c\<bar> + r"
    using assms by linarith+
  have "(\<bar>c\<bar> - r) * (\<bar>c\<bar> - r) \<le> \<bar>x\<bar> * \<bar>x\<bar>"
    using lo assms by (intro mult_mono) simp_all
  moreover have "\<bar>x\<bar> * \<bar>x\<bar> \<le> (\<bar>c\<bar> + r) * (\<bar>c\<bar> + r)"
    using hi assms by (intro mult_mono) simp_all
  ultimately show ?thesis
    by simp
qed

lemma abs_affine:
  fixes a c e k b :: real
  assumes "\<bar>a - c\<bar> \<le> e" and "0 \<le> k"
  shows "\<bar>(b + a * k) - (b + c * k)\<bar> \<le> e * k"
proof -
  have "\<bar>(b + a * k) - (b + c * k)\<bar> = \<bar>a - c\<bar> * k"
    using assms(2) by (simp add: abs_mult flip: left_diff_distrib)
  then show ?thesis
    using assms by (simp add: mult_right_mono)
qed

lemma norm2_enclosure:
  fixes x y cx cy rx ry c e :: real
  assumes x: "\<bar>x - cx\<bar> \<le> rx" "rx \<le> \<bar>cx\<bar>"
    and y: "\<bar>y - cy\<bar> \<le> ry" "ry \<le> \<bar>cy\<bar>"
    and lo: "0 \<le> e" "0 \<le> c - e"
      "(c - e) * (c - e) \<le> (\<bar>cx\<bar> - rx) * (\<bar>cx\<bar> - rx) + (\<bar>cy\<bar> - ry) * (\<bar>cy\<bar> - ry)"
    and hi: "(\<bar>cx\<bar> + rx) * (\<bar>cx\<bar> + rx) + (\<bar>cy\<bar> + ry) * (\<bar>cy\<bar> + ry) \<le> (c + e) * (c + e)"
  shows "\<bar>norm2 (Vec2 x y) - c\<bar> \<le> e"
proof -
  note sx = square_enclosure [OF x]
  note sy = square_enclosure [OF y]
  have ce: "0 \<le> c + e"
    using lo(1,2) by linarith
  have "(c - e)\<^sup>2 \<le> x * x + y * y"
    using sx sy lo(3) by (simp add: power2_eq_square)
  then have "c - e \<le> sqrt (x * x + y * y)"
    by (rule real_le_rsqrt)
  moreover have "x * x + y * y \<le> (c + e)\<^sup>2"
    using sx sy hi by (simp add: power2_eq_square)
  then have "sqrt (x * x + y * y) \<le> c + e"
    using ce by (intro real_le_lsqrt) simp_all
  ultimately show ?thesis
    by (simp add: norm2_def abs_le_iff)
qed

lemma layer_point_time_0: "layer_point 0 (Vec2 u v) i = Vec2 (u * (1 + i * 0.3)) (v * (1 + i * 0.3))"
  by (simp add: layer_point_def rot_def mul_vec_mat_def dot2_def mul2s_def)

text \<open>The last sine of a layer, at time 0 and at the point \<open>(X, Y)\<close> that enters the wave
  distortion: \<open>sc\<close>, \<open>se\<close> enclose \<open>sin (Y * 3)\<close>, \<open>kc\<close>, \<open>ke\<close> the cosine of the second
  assignment, \<open>nx\<close>, \<open>ny\<close> are the integer parts that \<open>fract\<close> removes, \<open>nc\<close>, \<open>ne\<close> enclose
  the length of the tiled point and \<open>tc\<close>, \<open>te\<close> the sine itself. Every premise is a
  comparison of rational numbers once the centres and radii are given.\<close>

lemma ring_sine_enclosure:
  fixes X Y i sc se kc ke nc ne tc te qx qy cx cy qt :: real and nx ny :: int
  assumes s1: "\<bar>sin_taylor (Y * 3) - sc\<bar> + 0 + \<bar>Y * 3\<bar> ^ 19 / 121645100408832000 \<le> se"
    and qx: "qx = X + sc * 0.3"
    and s2: "\<bar>cos_taylor (qx * 2) - kc\<bar> + se * 0.6 + \<bar>qx * 2\<bar> ^ 20 / 2432902008176640000 \<le> ke"
    and qy: "qy = Y + kc * 0.2"
    and fx: "of_int nx \<le> qx * 1.5 - se * 0.45" "qx * 1.5 + se * 0.45 < of_int nx + 1"
    and fy: "of_int ny \<le> qy * 1.5 - ke * 0.3" "qy * 1.5 + ke * 0.3 < of_int ny + 1"
    and cx: "cx = qx * 1.5 - of_int nx - 0.5" "se * 0.45 \<le> \<bar>cx\<bar>"
    and cy: "cy = qy * 1.5 - of_int ny - 0.5" "ke * 0.3 \<le> \<bar>cy\<bar>"
    and n: "0 \<le> ne" "0 \<le> nc - ne"
      "(nc - ne) * (nc - ne)
         \<le> (\<bar>cx\<bar> - se * 0.45) * (\<bar>cx\<bar> - se * 0.45) + (\<bar>cy\<bar> - ke * 0.3) * (\<bar>cy\<bar> - ke * 0.3)"
      "(\<bar>cx\<bar> + se * 0.45) * (\<bar>cx\<bar> + se * 0.45) + (\<bar>cy\<bar> + ke * 0.3) * (\<bar>cy\<bar> + ke * 0.3)
         \<le> (nc + ne) * (nc + ne)"
    and qt: "qt = (nc - (0.2 - i * 0.05)) * 8"
    and s4: "\<bar>sin_taylor qt - tc\<bar> + ne * 8 + \<bar>qt\<bar> ^ 19 / 121645100408832000 \<le> te"
  shows "\<bar>sin ((norm2 (repeat_space (wave 0 i (Vec2 X Y))) - (0.2 - i * 0.05)) * 8 + 0 * 2) - tc\<bar> \<le> te"
proof -
  define x1 where "x1 = X + sin (Y * 3) * 0.3"
  define y1 where "y1 = Y + cos (x1 * 2) * 0.2"
  have w: "wave 0 i (Vec2 X Y) = Vec2 x1 y1"
    by (simp add: wave_def Let_def x1_def y1_def)
  have "\<bar>sin (Y * 3) - sc\<bar> \<le> se"
    by (rule sin_enclosure [OF _ s1]) simp
  then have x1: "\<bar>x1 - qx\<bar> \<le> se * 0.3"
    unfolding x1_def qx by (rule abs_affine) simp
  have "\<bar>x1 * 2 - qx * 2\<bar> \<le> se * 0.6"
    using abs_affine [OF x1, of 2 0] by simp
  then have "\<bar>cos (x1 * 2) - kc\<bar> \<le> ke"
    using s2 by (rule cos_enclosure)
  then have y1: "\<bar>y1 - qy\<bar> \<le> ke * 0.2"
    unfolding y1_def qy by (rule abs_affine) simp
  have x15: "\<bar>x1 * 1.5 - qx * 1.5\<bar> \<le> se * 0.45"
    using abs_affine [OF x1, of "1.5" 0] by simp
  have y15: "\<bar>y1 * 1.5 - qy * 1.5\<bar> \<le> ke * 0.3"
    using abs_affine [OF y1, of "1.5" 0] by simp
  have "fract (x1 * 1.5) = x1 * 1.5 - of_int nx"
    using x15 fx by (intro fract_eq) linarith+
  moreover have "fract (y1 * 1.5) = y1 * 1.5 - of_int ny"
    using y15 fy by (intro fract_eq) linarith+
  ultimately have r: "repeat_space (Vec2 x1 y1)
      = Vec2 (x1 * 1.5 - of_int nx - 0.5) (y1 * 1.5 - of_int ny - 0.5)"
    by (simp add: repeat_space_def sub2s_def fract2_def mul2s_def)
  have px: "\<bar>(x1 * 1.5 - of_int nx - 0.5) - cx\<bar> \<le> se * 0.45"
    using x15 unfolding cx(1) by linarith
  have py: "\<bar>(y1 * 1.5 - of_int ny - 0.5) - cy\<bar> \<le> ke * 0.3"
    using y15 unfolding cy(1) by linarith
  have "\<bar>norm2 (repeat_space (wave 0 i (Vec2 X Y))) - nc\<bar> \<le> ne"
    unfolding w r using px cx(2) py cy(2) n by (rule norm2_enclosure)
  then have "\<bar>((norm2 (repeat_space (wave 0 i (Vec2 X Y))) - (0.2 - i * 0.05)) * 8 + 0 * 2) - qt\<bar>
      \<le> ne * 8"
    using abs_affine [of "norm2 (repeat_space (wave 0 i (Vec2 X Y)))" nc ne 8 "- (0.2 - i * 0.05) * 8"]
    unfolding qt by (simp add: algebra_simps)
  then show ?thesis
    using s4 by (rule sin_enclosure)
qed

text \<open>\<open>smoothstep\<close> is monotone, so an enclosure of the sine gives bounds of the ring.\<close>

lemma hermite_mono:
  assumes "a \<le> c"
  shows "hermite a \<le> hermite c"
proof -
  define s where "s = clamp a 0 1"
  define t where "t = clamp c 0 1"
  have st: "0 \<le> s" "s \<le> t" "t \<le> 1"
    using assms by (simp_all add: s_def t_def clamp_def)
  have "t * t * (3 - 2 * t) - s * s * (3 - 2 * s)
      = (t - s) * (s * (3 - 2 * s - t) + t * (3 - 2 * t - s))"
    by (simp add: algebra_simps)
  moreover have "0 \<le> (t - s) * (s * (3 - 2 * s - t) + t * (3 - 2 * t - s))"
    using st by (intro mult_nonneg_nonneg add_nonneg_nonneg) simp_all
  ultimately show ?thesis
    by (simp add: hermite_def Let_def flip: s_def t_def)
qed

lemma ring_val_enclosure:
  assumes s: "\<bar>sin ((norm2 p - (0.2 - i * 0.05)) * 8 + 0 * 2) - tc\<bar> \<le> te"
    and lo: "lo \<le> 1 - hermite ((\<bar>tc\<bar> + te) * 1.25)"
    and hi: "1 - hermite ((\<bar>tc\<bar> - te) * 1.25) \<le> hi"
  shows "lo \<le> ring_val 0 i p \<and> ring_val 0 i p \<le> hi"
proof -
  define a where "a = \<bar>sin ((norm2 p - (0.2 - i * 0.05)) * 8 + 0 * 2)\<bar>"
  have "a / 8 / 0.1 = a * 1.25"
    by simp
  then have r: "ring_val 0 i p = 1 - hermite (a * 1.25)"
    unfolding ring_val_def a_def by (simp only:)
  have l: "(\<bar>tc\<bar> - te) * 1.25 \<le> a * 1.25"
    using s unfolding a_def by simp
  have u: "a * 1.25 \<le> (\<bar>tc\<bar> + te) * 1.25"
    using s unfolding a_def by simp
  show ?thesis
    using hermite_mono [OF l] hermite_mono [OF u] lo hi unfolding r by linarith
qed

subsection \<open>The rings at time 0 at the centre, at the corner and at \<open>(0.1, 0.1)\<close>\<close>

lemma ring_centre_0:
  "2309 / 5000 \<le> ring_val 0 0 (repeat_space (wave 0 0 (layer_point 0 (Vec2 0 0) 0)))
   \<and> ring_val 0 0 (repeat_space (wave 0 0 (layer_point 0 (Vec2 0 0) 0))) \<le> 4629 / 10000"
proof -
  have p: "layer_point 0 (Vec2 0 0) 0 = Vec2 0 0"
    by (simp add: layer_point_time_0)
  have "\<bar>sin ((norm2 (repeat_space (wave 0 0 (Vec2 0 0))) - (0.2 - 0 * 0.05)) * 8 + 0 * 2)
      - (4201 / 10000)\<bar> \<le> 7 / 25000"
    by (rule ring_sine_enclosure
          [where sc = "0" and se = "0" and qx = "0" and kc = "1" and ke = "0" and qy = "1 / 5"
            and nx = "0" and ny = "0" and cx = "- (1 / 2)" and cy = "- (1 / 5)"
            and nc = "1077 / 2000" and ne = "3 / 100000" and qt = "677 / 250"])
      (simp_all add: sin_taylor_poly cos_taylor_poly power_divide)
  then have "2309 / 5000 \<le> ring_val 0 0 (repeat_space (wave 0 0 (Vec2 0 0)))
      \<and> ring_val 0 0 (repeat_space (wave 0 0 (Vec2 0 0))) \<le> 4629 / 10000"
    by (rule ring_val_enclosure) (simp_all add: hermite_def clamp_def Let_def)
  then show ?thesis
    by (simp only: p)
qed

lemma ring_centre_1:
  "9947 / 10000 \<le> ring_val 0 1 (repeat_space (wave 0 1 (layer_point 0 (Vec2 0 0) 1)))
   \<and> ring_val 0 1 (repeat_space (wave 0 1 (layer_point 0 (Vec2 0 0) 1))) \<le> 199 / 200"
proof -
  have p: "layer_point 0 (Vec2 0 0) 1 = Vec2 0 0"
    by (simp add: layer_point_time_0)
  have "\<bar>sin ((norm2 (repeat_space (wave 0 1 (Vec2 0 0))) - (0.2 - 1 * 0.05)) * 8 + 0 * 2)
      - (21 / 625)\<bar> \<le> 13 / 50000"
    by (rule ring_sine_enclosure
          [where sc = "0" and se = "0" and qx = "0" and kc = "1" and ke = "0" and qy = "1 / 5"
            and nx = "0" and ny = "0" and cx = "- (1 / 2)" and cy = "- (1 / 5)"
            and nc = "1077 / 2000" and ne = "3 / 100000" and qt = "777 / 250"])
      (simp_all add: sin_taylor_poly cos_taylor_poly power_divide)
  then have "9947 / 10000 \<le> ring_val 0 1 (repeat_space (wave 0 1 (Vec2 0 0)))
      \<and> ring_val 0 1 (repeat_space (wave 0 1 (Vec2 0 0))) \<le> 199 / 200"
    by (rule ring_val_enclosure) (simp_all add: hermite_def clamp_def Let_def)
  then show ?thesis
    by (simp only: p)
qed

lemma ring_centre_2:
  "5773 / 10000 \<le> ring_val 0 2 (repeat_space (wave 0 2 (layer_point 0 (Vec2 0 0) 2)))
   \<and> ring_val 0 2 (repeat_space (wave 0 2 (layer_point 0 (Vec2 0 0) 2))) \<le> 1157 / 2000"
proof -
  have p: "layer_point 0 (Vec2 0 0) 2 = Vec2 0 0"
    by (simp add: layer_point_time_0)
  have "\<bar>sin ((norm2 (repeat_space (wave 0 2 (Vec2 0 0))) - (0.2 - 2 * 0.05)) * 8 + 0 * 2)
      - (- (3583 / 10000))\<bar> \<le> 7 / 25000"
    by (rule ring_sine_enclosure
          [where sc = "0" and se = "0" and qx = "0" and kc = "1" and ke = "0" and qy = "1 / 5"
            and nx = "0" and ny = "0" and cx = "- (1 / 2)" and cy = "- (1 / 5)"
            and nc = "1077 / 2000" and ne = "3 / 100000" and qt = "877 / 250"])
      (simp_all add: sin_taylor_poly cos_taylor_poly power_divide)
  then have "5773 / 10000 \<le> ring_val 0 2 (repeat_space (wave 0 2 (Vec2 0 0)))
      \<and> ring_val 0 2 (repeat_space (wave 0 2 (Vec2 0 0))) \<le> 1157 / 2000"
    by (rule ring_val_enclosure) (simp_all add: hermite_def clamp_def Let_def)
  then show ?thesis
    by (simp only: p)
qed

lemma ring_corner_1:
  "0 \<le> ring_val 0 1 (repeat_space (wave 0 1 (layer_point 0 (Vec2 1 1) 1)))
   \<and> ring_val 0 1 (repeat_space (wave 0 1 (layer_point 0 (Vec2 1 1) 1))) \<le> 0"
proof -
  have p: "layer_point 0 (Vec2 1 1) 1 = Vec2 (13 / 10) (13 / 10)"
    by (simp add: layer_point_time_0)
  have "\<bar>sin ((norm2 (repeat_space (wave 0 1 (Vec2 (13 / 10) (13 / 10)))) - (0.2 - 1 * 0.05)) * 8 + 0 * 2)
      - (1917 / 2000)\<bar> \<le> 43 / 100000"
    by (rule ring_sine_enclosure
          [where sc = "- (3439 / 5000)" and se = "1 / 25000" and qx = "54683 / 50000" and kc = "- (2891 / 5000)" and ke = "3 / 100000" and qy = "29609 / 25000"
            and nx = "1" and ny = "1" and cx = "14049 / 100000" and cy = "13827 / 50000"
            and nc = "1551 / 5000" and ne = "1 / 20000" and qt = "801 / 625"])
      (simp_all add: sin_taylor_poly cos_taylor_poly power_divide)
  then have "0 \<le> ring_val 0 1 (repeat_space (wave 0 1 (Vec2 (13 / 10) (13 / 10))))
      \<and> ring_val 0 1 (repeat_space (wave 0 1 (Vec2 (13 / 10) (13 / 10)))) \<le> 0"
    by (rule ring_val_enclosure) (simp_all add: hermite_def clamp_def Let_def)
  then show ?thesis
    by (simp only: p)
qed

lemma ring_off_centre_0:
  "8059 / 10000 \<le> ring_val 0 0 (repeat_space (wave 0 0 (layer_point 0 (Vec2 (1 / 10) (1 / 10)) 0)))
   \<and> ring_val 0 0 (repeat_space (wave 0 0 (layer_point 0 (Vec2 (1 / 10) (1 / 10)) 0))) \<le> 2019 / 2500"
proof -
  have p: "layer_point 0 (Vec2 (1 / 10) (1 / 10)) 0 = Vec2 (1 / 10) (1 / 10)"
    by (simp add: layer_point_time_0)
  have "\<bar>sin ((norm2 (repeat_space (wave 0 0 (Vec2 (1 / 10) (1 / 10)))) - (0.2 - 0 * 0.05)) * 8 + 0 * 2)
      - (2253 / 10000)\<bar> \<le> 53 / 100000"
    by (rule ring_sine_enclosure
          [where sc = "591 / 2000" and se = "3 / 100000" and qx = "3773 / 20000" and kc = "9297 / 10000" and ke = "3 / 50000" and qy = "14297 / 50000"
            and nx = "0" and ny = "0" and cx = "- (8681 / 40000)" and cy = "- (7109 / 100000)"
            and nc = "571 / 2500" and ne = "3 / 50000" and qt = "142 / 625"])
      (simp_all add: sin_taylor_poly cos_taylor_poly power_divide)
  then have "8059 / 10000 \<le> ring_val 0 0 (repeat_space (wave 0 0 (Vec2 (1 / 10) (1 / 10))))
      \<and> ring_val 0 0 (repeat_space (wave 0 0 (Vec2 (1 / 10) (1 / 10)))) \<le> 2019 / 2500"
    by (rule ring_val_enclosure) (simp_all add: hermite_def clamp_def Let_def)
  then show ?thesis
    by (simp only: p)
qed

lemma ring_off_centre_1:
  "4853 / 5000 \<le> ring_val 0 1 (repeat_space (wave 0 1 (layer_point 0 (Vec2 (1 / 10) (1 / 10)) 1)))
   \<and> ring_val 0 1 (repeat_space (wave 0 1 (layer_point 0 (Vec2 (1 / 10) (1 / 10)) 1))) \<le> 4857 / 5000"
proof -
  have p: "layer_point 0 (Vec2 (1 / 10) (1 / 10)) 1 = Vec2 (13 / 100) (13 / 100)"
    by (simp add: layer_point_time_0)
  have "\<bar>sin ((norm2 (repeat_space (wave 0 1 (Vec2 (13 / 100) (13 / 100)))) - (0.2 - 1 * 0.05)) * 8 + 0 * 2)
      - (- (163 / 2000))\<bar> \<le> 49 / 100000"
    by (rule ring_sine_enclosure
          [where sc = "1901 / 5000" and se = "1 / 50000" and qx = "12203 / 50000" and kc = "552 / 625" and ke = "3 / 100000" and qy = "3833 / 12500"
            and nx = "0" and ny = "0" and cx = "- (13391 / 100000)" and cy = "- (1001 / 25000)"
            and nc = "699 / 5000" and ne = "3 / 50000" and qt = "- (51 / 625)"])
      (simp_all add: sin_taylor_poly cos_taylor_poly power_divide)
  then have "4853 / 5000 \<le> ring_val 0 1 (repeat_space (wave 0 1 (Vec2 (13 / 100) (13 / 100))))
      \<and> ring_val 0 1 (repeat_space (wave 0 1 (Vec2 (13 / 100) (13 / 100)))) \<le> 4857 / 5000"
    by (rule ring_val_enclosure) (simp_all add: hermite_def clamp_def Let_def)
  then show ?thesis
    by (simp only: p)
qed

lemma ring_off_centre_2:
  "709 / 1250 \<le> ring_val 0 2 (repeat_space (wave 0 2 (layer_point 0 (Vec2 (1 / 10) (1 / 10)) 2)))
   \<and> ring_val 0 2 (repeat_space (wave 0 2 (layer_point 0 (Vec2 (1 / 10) (1 / 10)) 2))) \<le> 1423 / 2500"
proof -
  have p: "layer_point 0 (Vec2 (1 / 10) (1 / 10)) 2 = Vec2 (4 / 25) (4 / 25)"
    by (simp add: layer_point_time_0)
  have "\<bar>sin ((norm2 (repeat_space (wave 0 2 (Vec2 (4 / 25) (4 / 25)))) - (0.2 - 2 * 0.05)) * 8 + 0 * 2)
      - (- (727 / 2000))\<bar> \<le> 51 / 100000"
    by (rule ring_sine_enclosure
          [where sc = "2309 / 5000" and se = "3 / 100000" and qx = "14927 / 50000" and kc = "827 / 1000" and ke = "1 / 25000" and qy = "1627 / 5000"
            and nx = "0" and ny = "0" and cx = "- (5219 / 100000)" and cy = "- (119 / 10000)"
            and nc = "107 / 2000" and ne = "3 / 50000" and qt = "- (93 / 250)"])
      (simp_all add: sin_taylor_poly cos_taylor_poly power_divide)
  then have "709 / 1250 \<le> ring_val 0 2 (repeat_space (wave 0 2 (Vec2 (4 / 25) (4 / 25))))
      \<and> ring_val 0 2 (repeat_space (wave 0 2 (Vec2 (4 / 25) (4 / 25)))) \<le> 1423 / 2500"
    by (rule ring_val_enclosure) (simp_all add: hermite_def clamp_def Let_def)
  then show ?thesis
    by (simp only: p)
qed

subsection \<open>The channels at time 0 at the centre, at the corner and at \<open>(0.1, 0.1)\<close>\<close>

lemma product_upper:
  fixes a f am fm :: real
  assumes "0 \<le> a" "a \<le> am" "0 \<le> f" "f \<le> fm"
  shows "a * f \<le> am * fm"
  using assms by (intro mult_mono) simp_all

lemma product_lower:
  fixes a f am fm :: real
  assumes "0 \<le> am" "am \<le> a" "0 \<le> fm" "fm \<le> f"
  shows "am * fm \<le> a * f"
  using assms by (intro mult_mono) simp_all

lemma vignette_factor_origin: "vignette_factor (Vec2 0 0) = 1"
  by (simp add: vignette_factor_def norm2_origin)

lemma vignette_factor_corner: "vignette_factor (Vec2 1 1) = 0.7 + 0.3 * (1 - sqrt 2 * 0.5)"
proof -
  have "sqrt (1 / 2) = sqrt 2 / 2"
    by (simp add: real_sqrt_divide real_div_sqrt)
  then show ?thesis
    by (simp add: vignette_factor_def norm2_def mul2s_def)
qed

lemma centre_channels:
  "0.2496 \<le> vr (shade_val 0 (Vec2 0 0)) \<and> vr (shade_val 0 (Vec2 0 0)) \<le> 0.2499
   \<and> 0.2905 \<le> vg (shade_val 0 (Vec2 0 0)) \<and> vg (shade_val 0 (Vec2 0 0)) \<le> 0.2908
   \<and> 0.4541 \<le> vb (shade_val 0 (Vec2 0 0)) \<and> vb (shade_val 0 (Vec2 0 0)) \<le> 0.4545"
  using ring_centre_0 ring_centre_1 ring_centre_2
  by (simp add: shade_val_channels layers_val_channels noise_of_origin vignette_factor_origin)

lemma corner_channels:
  "vr (shade_val 0 (Vec2 1 1)) \<le> 0.1865
   \<and> vg (shade_val 0 (Vec2 1 1)) \<le> 0.2813
   \<and> vb (shade_val 0 (Vec2 1 1)) \<le> 0.3729"
proof -
  define f where "f = vignette_factor (Vec2 1 1)"
  define n where "n = noise_of (Vec2 1 1)"
  define a where "a = ring_val 0 0 (repeat_space (wave 0 0 (layer_point 0 (Vec2 1 1) 0)))"
  define b where "b = ring_val 0 1 (repeat_space (wave 0 1 (layer_point 0 (Vec2 1 1) 1)))"
  define c where "c = ring_val 0 2 (repeat_space (wave 0 2 (layer_point 0 (Vec2 1 1) 2)))"
  have "(14 / 10)\<^sup>2 \<le> (2 :: real)"
    by (simp add: power2_eq_square)
  then have "14 / 10 \<le> sqrt 2"
    by (rule real_le_rsqrt)
  then have f: "0 \<le> f" "f \<le> 0.79"
    using vignette_factor_bounds [of "Vec2 1 1"] by (simp_all add: f_def vignette_factor_corner)
  have n: "0 \<le> n" "n \<le> 1"
    using noise_of_bounds [of "Vec2 1 1"] by (simp_all add: n_def)
  have a: "0 \<le> a" "a \<le> 1"
    using ring_val_bounds by (simp_all add: a_def)
  have b: "b = 0"
    using ring_corner_1 ring_val_bounds [of 0 1 "repeat_space (wave 0 1 (layer_point 0 (Vec2 1 1) 1))"]
    by (simp add: b_def)
  have c: "0 \<le> c" "c \<le> 1"
    using ring_val_bounds by (simp_all add: c_def)
  have r: "vr (shade_val 0 (Vec2 1 1)) = (0.08 + n * 0.02 + 0.8 * (0.09 * a + 0.08 * c)) * f"
    by (simp add: shade_val_channels layers_val_channels b f_def n_def flip: a_def b_def c_def)
  have g: "vg (shade_val 0 (Vec2 1 1)) = (0.12 + n * 0.02 + 0.8 * (0.15 * a + 0.12 * c)) * f"
    by (simp add: shade_val_channels layers_val_channels b f_def n_def flip: a_def b_def c_def)
  have bl: "vb (shade_val 0 (Vec2 1 1)) = (0.18 + n * 0.02 + 0.8 * (0.24 * a + 0.1 * c)) * f"
    by (simp add: shade_val_channels layers_val_channels b f_def n_def flip: a_def b_def c_def)
  have "0 \<le> 0.08 + n * 0.02 + 0.8 * (0.09 * a + 0.08 * c)"
    and "0.08 + n * 0.02 + 0.8 * (0.09 * a + 0.08 * c) \<le> 0.236"
    using n a c by (simp_all add: field_simps)
  then have "(0.08 + n * 0.02 + 0.8 * (0.09 * a + 0.08 * c)) * f \<le> 0.236 * 0.79"
    using f by (rule product_upper)
  moreover have "0 \<le> 0.12 + n * 0.02 + 0.8 * (0.15 * a + 0.12 * c)"
    and "0.12 + n * 0.02 + 0.8 * (0.15 * a + 0.12 * c) \<le> 0.356"
    using n a c by (simp_all add: field_simps)
  then have "(0.12 + n * 0.02 + 0.8 * (0.15 * a + 0.12 * c)) * f \<le> 0.356 * 0.79"
    using f by (rule product_upper)
  moreover have "0 \<le> 0.18 + n * 0.02 + 0.8 * (0.24 * a + 0.1 * c)"
    and "0.18 + n * 0.02 + 0.8 * (0.24 * a + 0.1 * c) \<le> 0.472"
    using n a c by (simp_all add: field_simps)
  then have "(0.18 + n * 0.02 + 0.8 * (0.24 * a + 0.1 * c)) * f \<le> 0.472 * 0.79"
    using f by (rule product_upper)
  ultimately show ?thesis
    unfolding r g bl by simp
qed

lemma off_centre_channels:
  "0.2651 \<le> vr (shade_val 0 (Vec2 (1 / 10) (1 / 10)))
   \<and> 0.3218 \<le> vg (shade_val 0 (Vec2 (1 / 10) (1 / 10)))
   \<and> 0.5042 \<le> vb (shade_val 0 (Vec2 (1 / 10) (1 / 10)))"
proof -
  define f where "f = vignette_factor (Vec2 (1 / 10) (1 / 10))"
  define n where "n = noise_of (Vec2 (1 / 10) (1 / 10))"
  define a where "a = ring_val 0 0 (repeat_space (wave 0 0 (layer_point 0 (Vec2 (1 / 10) (1 / 10)) 0)))"
  define b where "b = ring_val 0 1 (repeat_space (wave 0 1 (layer_point 0 (Vec2 (1 / 10) (1 / 10)) 1)))"
  define c where "c = ring_val 0 2 (repeat_space (wave 0 2 (layer_point 0 (Vec2 (1 / 10) (1 / 10)) 2)))"
  have "(1 / 50 :: real) \<le> (15 / 100)\<^sup>2"
    by (simp add: power2_eq_square)
  then have "sqrt (1 / 50) \<le> 15 / 100"
    by (intro real_le_lsqrt) simp_all
  then have f: "0.9775 \<le> f"
    by (simp add: f_def vignette_factor_eq norm2_def)
  have n: "0 \<le> n"
    using noise_of_bounds [of "Vec2 (1 / 10) (1 / 10)"] by (simp add: n_def)
  have a: "8059 / 10000 \<le> a"
    using ring_off_centre_0 by (simp add: a_def)
  have b: "4853 / 5000 \<le> b"
    using ring_off_centre_1 by (simp add: b_def)
  have c: "709 / 1250 \<le> c"
    using ring_off_centre_2 by (simp add: c_def)
  have r: "vr (shade_val 0 (Vec2 (1 / 10) (1 / 10)))
      = (0.08 + n * 0.02 + 0.8 * (0.09 * a + 0.125 * b + 0.08 * c)) * f"
    by (simp add: shade_val_channels layers_val_channels f_def n_def flip: a_def b_def c_def)
  have g: "vg (shade_val 0 (Vec2 (1 / 10) (1 / 10)))
      = (0.12 + n * 0.02 + 0.8 * (0.15 * a + 0.075 * b + 0.12 * c)) * f"
    by (simp add: shade_val_channels layers_val_channels f_def n_def flip: a_def b_def c_def)
  have bl: "vb (shade_val 0 (Vec2 (1 / 10) (1 / 10)))
      = (0.18 + n * 0.02 + 0.8 * (0.24 * a + 0.175 * b + 0.1 * c)) * f"
    by (simp add: shade_val_channels layers_val_channels f_def n_def flip: a_def b_def c_def)
  have f0: "(0 :: real) \<le> 0.9775"
    by simp
  have "(0 :: real) \<le> 0.2713"
    and "0.2713 \<le> 0.08 + n * 0.02 + 0.8 * (0.09 * a + 0.125 * b + 0.08 * c)"
    using n a b c by (simp_all add: field_simps)
  then have "0.2713 * 0.9775 \<le> (0.08 + n * 0.02 + 0.8 * (0.09 * a + 0.125 * b + 0.08 * c)) * f"
    using f0 f by (rule product_lower)
  moreover have "(0 :: real) \<le> 0.3293"
    and "0.3293 \<le> 0.12 + n * 0.02 + 0.8 * (0.15 * a + 0.075 * b + 0.12 * c)"
    using n a b c by (simp_all add: field_simps)
  then have "0.3293 * 0.9775 \<le> (0.12 + n * 0.02 + 0.8 * (0.15 * a + 0.075 * b + 0.12 * c)) * f"
    using f0 f by (rule product_lower)
  moreover have "(0 :: real) \<le> 0.5159"
    and "0.5159 \<le> 0.18 + n * 0.02 + 0.8 * (0.24 * a + 0.175 * b + 0.1 * c)"
    using n a b c by (simp_all add: field_simps)
  then have "0.5159 * 0.9775 \<le> (0.18 + n * 0.02 + 0.8 * (0.24 * a + 0.175 * b + 0.1 * c)) * f"
    using f0 f by (rule product_lower)
  ultimately show ?thesis
    unfolding r g bl by simp
qed

section \<open>Properties of the fragment program\<close>

text \<open>
  C1. The colour is a function of the coordinate and of \<open>uTime\<close> alone: two evaluations of
  \<open>main\<close> at the same \<open>vUv\<close> and the same \<open>uTime\<close> return the same colour whatever the two
  values of \<open>uResolution\<close> are. With the same value of \<open>uResolution\<close> on both sides this is
  repeated evaluation at the same input.
\<close>

theorem main_independent_of_uResolution:
  "main \<lparr> uTime = t, uResolution = r1 \<rparr> vUv = main \<lparr> uTime = t, uResolution = r2 \<rparr> vUv"
  by (simp add: main_def)

text \<open>
  C2. The evaluation of \<open>main\<close> never applies an operation outside its domain: for every
  coordinate and every value of the uniforms it returns a colour, whose channels are real
  numbers. The divisors that occur are the constants \<open>8\<close> and \<open>0.1 - 0\<close>, and \<open>sqrt\<close> is
  applied to sums of two squares only.
\<close>

theorem main_total:
  "\<exists>r g b a. main u vUv = Some (Vec4 (Vec3 r g b) a)"
proof -
  obtain r g b where "shade_val (uTime u) (mul2s (sub2s vUv 0.5) 2) = Vec3 r g b"
    by (cases "shade_val (uTime u) (mul2s (sub2s vUv 0.5) 2)") blast
  then show ?thesis
    by (simp add: main_def shade_Some)
qed

text \<open>
  C3. In layer \<open>i\<close> the point \<open>(x, y)\<close> that rotation and scaling produce is distorted to
  \<open>(x', y')\<close> with \<open>x' = x + sin (y * 3 + time * (1 + i * 0.5)) * 0.3\<close> and
  \<open>y' = y + cos (x' * 2 + time * (1.2 + i * 0.3)) * 0.2\<close>: the second assignment reads the
  new \<open>x'\<close>. The layer is the tiled pattern at \<open>(x', y')\<close>.
\<close>

theorem wave_sequential:
  "wave time i (Vec2 x y) =
     Vec2 (x + sin (y * 3 + time * (1 + i * 0.5)) * 0.3)
          (y + cos ((x + sin (y * 3 + time * (1 + i * 0.5)) * 0.3) * 2
                    + time * (1.2 + i * 0.3)) * 0.2)
   \<and> layer time uv i = tiled_layer time i (wave time i (layer_point time uv i))"
  by (simp add: wave_def layer_def Let_def)

text \<open>
  C6. For a fixed time and a fixed layer, the pattern computed from "Repeat the space" on is
  periodic in the point \<open>p\<close> before that statement, with period \<open>1 / 1.5\<close> along each axis:
  the tiled point, the value of \<open>d\<close> and the colour added to \<open>col\<close> are unchanged.
\<close>

lemma fract_add_one: "fract (a + 1) = fract a"
  by (simp add: fract_def)

lemma repeat_space_shift_x: "repeat_space (Vec2 (x + 1 / 1.5) y) = repeat_space (Vec2 x y)"
proof -
  have "mul2s (Vec2 (x + 1 / 1.5) y) 1.5 = Vec2 (x * 1.5 + 1) (y * 1.5)"
    by (simp add: mul2s_def algebra_simps)
  moreover have "mul2s (Vec2 x y) 1.5 = Vec2 (x * 1.5) (y * 1.5)"
    by (simp add: mul2s_def)
  ultimately show ?thesis
    by (simp only: repeat_space_def fract2_def fract_add_one vec2.sel)
qed

lemma repeat_space_shift_y: "repeat_space (Vec2 x (y + 1 / 1.5)) = repeat_space (Vec2 x y)"
proof -
  have "mul2s (Vec2 x (y + 1 / 1.5)) 1.5 = Vec2 (x * 1.5) (y * 1.5 + 1)"
    by (simp add: mul2s_def algebra_simps)
  moreover have "mul2s (Vec2 x y) 1.5 = Vec2 (x * 1.5) (y * 1.5)"
    by (simp add: mul2s_def)
  ultimately show ?thesis
    by (simp only: repeat_space_def fract2_def fract_add_one vec2.sel)
qed

theorem tiled_layer_periodic:
  "repeat_space (Vec2 (x + 1 / 1.5) y) = repeat_space (Vec2 x y)
   \<and> repeat_space (Vec2 x (y + 1 / 1.5)) = repeat_space (Vec2 x y)
   \<and> ring time i (repeat_space (Vec2 (x + 1 / 1.5) y)) = ring time i (repeat_space (Vec2 x y))
   \<and> ring time i (repeat_space (Vec2 x (y + 1 / 1.5))) = ring time i (repeat_space (Vec2 x y))
   \<and> tiled_layer time i (Vec2 (x + 1 / 1.5) y) = tiled_layer time i (Vec2 x y)
   \<and> tiled_layer time i (Vec2 x (y + 1 / 1.5)) = tiled_layer time i (Vec2 x y)"
  by (simp only: repeat_space_shift_x repeat_space_shift_y tiled_layer_def Let_def simp_thms)

text \<open>
  C10. At the centre \<open>uv = (0, 0)\<close> the noise term is \<open>0\<close>, so the background that enters the
  blend there is \<open>(0.08, 0.12, 0.18)\<close>, at every time: the colour of the centre pixel is the
  blend of that background with the layers, and the centre is the pixel \<open>vUv = (0.5, 0.5)\<close>.
\<close>

theorem noise_zero_at_centre:
  "noise_of (Vec2 0 0) = 0
   \<and> add3s (Vec3 0.08 0.12 0.18) (noise_of (Vec2 0 0) * 0.02) = Vec3 0.08 0.12 0.18
   \<and> mul2s (sub2s (Vec2 0.5 0.5) 0.5) 2 = Vec2 0 0
   \<and> shade t (Vec2 0 0) =
       Some (Vec4 (mix3 (Vec3 0.08 0.12 0.18)
                        (add3 (Vec3 0.08 0.12 0.18) (layers_val (t * 0.3) (Vec2 0 0))) 0.8) 1)"
proof -
  have one: "mul3s c 1 = c" for c
    by (cases c) (simp add: mul3s_def)
  have bg: "background_of (Vec2 0 0) = Vec3 0.08 0.12 0.18"
    by (simp add: background_of_def noise_of_origin add3s_def)
  have vg: "vignette_factor (Vec2 0 0) = 1"
    by (simp add: vignette_factor_def norm2_origin)
  have "shade t (Vec2 0 0) =
       Some (Vec4 (mix3 (Vec3 0.08 0.12 0.18)
                        (add3 (Vec3 0.08 0.12 0.18) (layers_val (t * 0.3) (Vec2 0 0))) 0.8) 1)"
    by (simp only: shade_Some shade_val_def bg vg one)
  moreover have "mul2s (sub2s (Vec2 0.5 0.5) 0.5) 2 = Vec2 0 0"
    by (simp add: mul2s_def sub2s_def)
  moreover have "add3s (Vec3 0.08 0.12 0.18) (noise_of (Vec2 0 0) * 0.02) = Vec3 0.08 0.12 0.18"
    by (simp add: noise_of_origin add3s_def)
  ultimately show ?thesis
    by (simp only: noise_of_origin simp_thms)
qed

text \<open>
  C9. For every coordinate \<open>uv\<close> of the square \<open>[-1, 1]\<^sup>2\<close> and every time, the program
  returns a colour whose red, green and blue channels lie strictly between 0 and 1.
\<close>

theorem shade_channels_strictly_between_0_and_1:
  assumes "\<bar>vx uv\<bar> \<le> 1" and "\<bar>vy uv\<bar> \<le> 1"
  shows "\<exists>r g b. shade t uv = Some (Vec4 (Vec3 r g b) 1)
           \<and> 0 < r \<and> r < 1 \<and> 0 < g \<and> g < 1 \<and> 0 < b \<and> b < 1"
proof -
  note f = vignette_factor_bounds [OF assms]
  note n = noise_of_bounds [of uv]
  note l = layers_val_bounds [of "t * 0.3" uv]
  have r: "0 < vr (shade_val t uv) \<and> vr (shade_val t uv) < 1"
    unfolding shade_val_channels using f n l by (intro channel_bounds) simp_all
  have g: "0 < vg (shade_val t uv) \<and> vg (shade_val t uv) < 1"
    unfolding shade_val_channels using f n l by (intro channel_bounds) simp_all
  have b: "0 < vb (shade_val t uv) \<and> vb (shade_val t uv) < 1"
    unfolding shade_val_channels using f n l by (intro channel_bounds) simp_all
  have "shade t uv = Some (Vec4 (Vec3 (vr (shade_val t uv)) (vg (shade_val t uv)) (vb (shade_val t uv))) 1)"
    by (simp add: shade_Some)
  with r g b show ?thesis
    by blast
qed

theorem shade_channels_witness:
  "\<bar>vx (Vec2 1 (-1))\<bar> \<le> 1 \<and> \<bar>vy (Vec2 1 (-1))\<bar> \<le> 1
   \<and> (\<exists>r g b. shade 2 (Vec2 1 (-1)) = Some (Vec4 (Vec3 r g b) 1)
           \<and> 0 < r \<and> r < 1 \<and> 0 < g \<and> g < 1 \<and> 0 < b \<and> b < 1)"
  using shade_channels_strictly_between_0_and_1 [of "Vec2 1 (-1)" 2] by simp

text \<open>
  C7. At time 0 the colour at the centre \<open>uv = (0, 0)\<close> is the background
  \<open>(0.08, 0.12, 0.18)\<close> blended with factor \<open>0.8\<close> with the sum \<open>L\<close> of the three layers at the
  origin, times the vignette factor 1. The colour at the corner \<open>uv = (1, 1)\<close> is the blend
  there times \<open>0.7 + 0.3 * (1 - sqrt 2 * 0.5)\<close>, and each of its channels is smaller than the
  same channel at the centre.
\<close>

theorem centre_and_corner_at_time_0:
  "\<exists>L c0 L1 c1.
      layers (0 * 0.3) (Vec2 0 0) 0 (Vec3 0 0 0) = Some L
    \<and> shade 0 (Vec2 0 0) = Some (Vec4 c0 1)
    \<and> c0 = mul3s (mix3 (Vec3 0.08 0.12 0.18) (add3 (Vec3 0.08 0.12 0.18) L) 0.8) 1
    \<and> layers (0 * 0.3) (Vec2 1 1) 0 (Vec3 0 0 0) = Some L1
    \<and> shade 0 (Vec2 1 1) = Some (Vec4 c1 1)
    \<and> c1 = mul3s (mix3 (add3s (Vec3 0.08 0.12 0.18) (noise_of (Vec2 1 1) * 0.02))
                        (add3 (add3s (Vec3 0.08 0.12 0.18) (noise_of (Vec2 1 1) * 0.02)) L1) 0.8)
                  (0.7 + 0.3 * (1 - sqrt 2 * 0.5))
    \<and> vr c1 < vr c0 \<and> vg c1 < vg c0 \<and> vb c1 < vb c0"
proof -
  have l0: "layers (0 * 0.3) (Vec2 0 0) 0 (Vec3 0 0 0) = Some (layers_val (0 * 0.3) (Vec2 0 0))"
    by (rule layers_Some)
  have l1: "layers (0 * 0.3) (Vec2 1 1) 0 (Vec3 0 0 0) = Some (layers_val (0 * 0.3) (Vec2 1 1))"
    by (rule layers_Some)
  have bg: "background_of (Vec2 0 0) = Vec3 0.08 0.12 0.18"
    by (simp add: background_of_def noise_of_origin add3s_def)
  have c0: "shade_val 0 (Vec2 0 0)
      = mul3s (mix3 (Vec3 0.08 0.12 0.18)
                (add3 (Vec3 0.08 0.12 0.18) (layers_val (0 * 0.3) (Vec2 0 0))) 0.8) 1"
    by (simp only: shade_val_def bg vignette_factor_origin)
  have c1: "shade_val 0 (Vec2 1 1)
      = mul3s (mix3 (add3s (Vec3 0.08 0.12 0.18) (noise_of (Vec2 1 1) * 0.02))
                (add3 (add3s (Vec3 0.08 0.12 0.18) (noise_of (Vec2 1 1) * 0.02))
                   (layers_val (0 * 0.3) (Vec2 1 1))) 0.8)
          (0.7 + 0.3 * (1 - sqrt 2 * 0.5))"
    by (simp only: shade_val_def background_of_def vignette_factor_corner)
  have lt: "vr (shade_val 0 (Vec2 1 1)) < vr (shade_val 0 (Vec2 0 0))"
    "vg (shade_val 0 (Vec2 1 1)) < vg (shade_val 0 (Vec2 0 0))"
    "vb (shade_val 0 (Vec2 1 1)) < vb (shade_val 0 (Vec2 0 0))"
    using centre_channels corner_channels by simp_all
  show ?thesis
    using l0 l1 shade_Some [of 0 "Vec2 0 0"] shade_Some [of 0 "Vec2 1 1"] c0 c1 lt
    by (intro exI [where x = "layers_val (0 * 0.3) (Vec2 0 0)"]
          exI [where x = "shade_val 0 (Vec2 0 0)"]
          exI [where x = "layers_val (0 * 0.3) (Vec2 1 1)"]
          exI [where x = "shade_val 0 (Vec2 1 1)"]) (simp only: simp_thms)
qed

text \<open>
  C5, as the claim has it, fails: at time 0 the pixel \<open>uv = (0.1, 0.1)\<close>, on the diagonal from
  the centre to the corner \<open>(1, 1)\<close>, is farther from the centre than \<open>(0, 0)\<close> and brighter
  than it in every channel.
\<close>

theorem brightness_not_monotone:
  "norm2 (Vec2 0 0) < norm2 (Vec2 (1 / 10) (1 / 10))
   \<and> shade 0 (Vec2 0 0) = Some (Vec4 (shade_val 0 (Vec2 0 0)) 1)
   \<and> shade 0 (Vec2 (1 / 10) (1 / 10)) = Some (Vec4 (shade_val 0 (Vec2 (1 / 10) (1 / 10))) 1)
   \<and> vr (shade_val 0 (Vec2 0 0)) < vr (shade_val 0 (Vec2 (1 / 10) (1 / 10)))
   \<and> vg (shade_val 0 (Vec2 0 0)) < vg (shade_val 0 (Vec2 (1 / 10) (1 / 10)))
   \<and> vb (shade_val 0 (Vec2 0 0)) < vb (shade_val 0 (Vec2 (1 / 10) (1 / 10)))"
proof -
  have "norm2 (Vec2 0 0) < norm2 (Vec2 (1 / 10) (1 / 10))"
    by (simp add: norm2_def)
  moreover have "vr (shade_val 0 (Vec2 0 0)) < vr (shade_val 0 (Vec2 (1 / 10) (1 / 10)))"
    "vg (shade_val 0 (Vec2 0 0)) < vg (shade_val 0 (Vec2 (1 / 10) (1 / 10)))"
    "vb (shade_val 0 (Vec2 0 0)) < vb (shade_val 0 (Vec2 (1 / 10) (1 / 10)))"
    using centre_channels off_centre_channels by simp_all
  ultimately show ?thesis
    by (simp only: shade_Some simp_thms)
qed

text \<open>
  C5, as the program has it. The colour is the blend of background and layers times the
  vignette factor \<open>0.7 + 0.3 * (1 - length (uv * 0.5))\<close>. This factor strictly decreases as the
  distance of \<open>uv\<close> from the centre increases, and so does every channel of a fixed colour
  with positive channels multiplied by it.
\<close>

theorem vignette_darkens_fixed_colour:
  assumes "norm2 uv1 < norm2 uv2" and "0 < vr c" and "0 < vg c" and "0 < vb c"
  shows "shade t uv1 = Some (Vec4 (mul3s (mix3 (background_of uv1)
            (add3 (background_of uv1) (layers_val (t * 0.3) uv1)) 0.8) (vignette_factor uv1)) 1)
    \<and> vignette_factor uv1 = 0.7 + 0.3 * (1 - norm2 (mul2s uv1 0.5))
    \<and> vignette_factor uv2 < vignette_factor uv1
    \<and> vr (mul3s c (vignette_factor uv2)) < vr (mul3s c (vignette_factor uv1))
    \<and> vg (mul3s c (vignette_factor uv2)) < vg (mul3s c (vignette_factor uv1))
    \<and> vb (mul3s c (vignette_factor uv2)) < vb (mul3s c (vignette_factor uv1))"
proof -
  have f: "vignette_factor uv2 < vignette_factor uv1"
    using assms(1) by (simp add: vignette_factor_eq)
  have "shade t uv1 = Some (Vec4 (mul3s (mix3 (background_of uv1)
            (add3 (background_of uv1) (layers_val (t * 0.3) uv1)) 0.8) (vignette_factor uv1)) 1)"
    by (simp only: shade_Some shade_val_def)
  moreover have "vignette_factor uv1 = 0.7 + 0.3 * (1 - norm2 (mul2s uv1 0.5))"
    by (simp only: vignette_factor_def)
  ultimately show ?thesis
    using f assms(2-4) by (simp add: mul3s_def)
qed

theorem vignette_darkens_witness:
  "norm2 (Vec2 0 0) < norm2 (Vec2 1 1)
   \<and> 0 < vr (Vec3 0.08 0.12 0.18) \<and> 0 < vg (Vec3 0.08 0.12 0.18) \<and> 0 < vb (Vec3 0.08 0.12 0.18)
   \<and> vignette_factor (Vec2 1 1) < vignette_factor (Vec2 0 0)
   \<and> vr (mul3s (Vec3 0.08 0.12 0.18) (vignette_factor (Vec2 1 1)))
       < vr (mul3s (Vec3 0.08 0.12 0.18) (vignette_factor (Vec2 0 0)))
   \<and> vg (mul3s (Vec3 0.08 0.12 0.18) (vignette_factor (Vec2 1 1)))
       < vg (mul3s (Vec3 0.08 0.12 0.18) (vignette_factor (Vec2 0 0)))
   \<and> vb (mul3s (Vec3 0.08 0.12 0.18) (vignette_factor (Vec2 1 1)))
       < vb (mul3s (Vec3 0.08 0.12 0.18) (vignette_factor (Vec2 0 0)))"
proof -
  have h: "norm2 (Vec2 0 0) < norm2 (Vec2 1 1)"
    by (simp add: norm2_def)
  have c: "0 < vr (Vec3 0.08 0.12 0.18)" "0 < vg (Vec3 0.08 0.12 0.18)"
    "0 < vb (Vec3 0.08 0.12 0.18)"
    by simp_all
  show ?thesis
    using h c vignette_darkens_fixed_colour [OF h c, of 0] by blast
qed

section \<open>Properties of the host component\<close>

lemma step_uResolution: "uResolution (host_uniforms (step s e)) = uResolution (host_uniforms s)"
  by (cases e) simp_all

lemma step_plane_args: "plane_args (step s e) = plane_args s"
  by (cases e) simp_all

lemma run_snoc: "run s (evs @ [e]) = step (run s evs) e"
  by (simp add: run_def)

text \<open>
  C4, as the program has it. \<open>uResolution\<close> is the size that the window had at the first
  render, and no event changes it: the component has no handler for a resize, and the
  callback of \<open>useFrame\<close> writes \<open>uTime\<close> only.
\<close>

theorem uResolution_fixed_at_first_render:
  "uResolution (host_uniforms (run (initialize w) evs)) = w"
proof (induction evs rule: rev_induct)
  case Nil
  show ?case
    by (simp add: run_def initialize_def)
next
  case (snoc e evs)
  then show ?case
    by (simp add: run_snoc step_uResolution)
qed

text \<open>
  C4, as the claim has it, fails: the window is 800 by 600 at the first render and is resized
  to 1600 by 1200; at the frame that follows, \<open>uResolution\<close> is still 800 by 600.
\<close>

theorem uResolution_stale_after_resize:
  "uResolution (host_uniforms
      (run (initialize (Vec2 800 600)) [Attach, Resize (Vec2 1600 1200), Frame 1]))
     = Vec2 800 600
   \<and> window_size (run (initialize (Vec2 800 600)) [Attach, Resize (Vec2 1600 1200), Frame 1])
     = Vec2 1600 1200
   \<and> uResolution (host_uniforms
      (run (initialize (Vec2 800 600)) [Attach, Resize (Vec2 1600 1200), Frame 1]))
     \<noteq> window_size
      (run (initialize (Vec2 800 600)) [Attach, Resize (Vec2 1600 1200), Frame 1])"
  by (simp add: run_def initialize_def)

text \<open>
  C8. The geometry of the plane is created with the arguments \<open>(2, 2)\<close>, a square of side 2,
  and no event changes them.
\<close>

theorem plane_geometry_constant:
  "plane_args (run (initialize w) evs) = (2, 2)"
proof (induction evs rule: rev_induct)
  case Nil
  show ?case
    by (simp add: run_def initialize_def)
next
  case (snoc e evs)
  then show ?case
    by (simp add: run_snoc step_plane_args)
qed

end
